theory Spec2Isabelle
  imports Main "HOL-Library.Word"
begin

section \<open>JavaScript strings\<close>

text \<open>
  A JavaScript string is a sequence of UTF-16 code units, and \<open>length\<close> counts code
  units. String literals of the source that are plain ASCII are written with \<open>ascii\<close>;
  the Thai and emoji literals of the report are given by their code units.
\<close>

type_synonym code_unit = "16 word"
type_synonym jsstring = "code_unit list"

definition ascii :: "string \<Rightarrow> jsstring" where
  "ascii s = map (\<lambda>c. of_nat (of_char c)) s"

text \<open>
  \<open>String.prototype.trim\<close> removes leading and trailing WhiteSpace and LineTerminator
  code units: TAB, LF, VT, FF, CR, SP, NBSP, U+1680, U+2000..U+200A, U+2028, U+2029,
  U+202F, U+205F, U+3000 and U+FEFF.
\<close>

definition isWhiteSpace :: "code_unit \<Rightarrow> bool" where
  "isWhiteSpace c \<longleftrightarrow>
     c = 0x0009 \<or> c = 0x000A \<or> c = 0x000B \<or> c = 0x000C \<or> c = 0x000D \<or> c = 0x0020 \<or>
     c = 0x00A0 \<or> c = 0x1680 \<or> (0x2000 \<le> c \<and> c \<le> 0x200A) \<or> c = 0x2028 \<or>
     c = 0x2029 \<or> c = 0x202F \<or> c = 0x205F \<or> c = 0x3000 \<or> c = 0xFEFF"

definition trim :: "jsstring \<Rightarrow> jsstring" where
  "trim s = rev (dropWhile isWhiteSpace (rev (dropWhile isWhiteSpace s)))"

text \<open>\<open>Array.prototype.join\<close> on an array of strings.\<close>

fun join :: "jsstring \<Rightarrow> jsstring list \<Rightarrow> jsstring" where
  "join sep [] = []"
| "join sep [p] = p"
| "join sep (p # q # ps) = p @ sep @ join sep (q # ps)"

text \<open>
  A non-negative integer inside a template literal (\<open>`${taskNumber}`\<close>) is printed in
  decimal.
\<close>

fun toString :: "nat \<Rightarrow> jsstring" where
  "toString n =
     (if n < 10 then [0x30 + of_nat n]
      else toString (n div 10) @ [0x30 + of_nat (n mod 10)])"

declare toString.simps [simp del]

text \<open>
  Fields read from parsed JSON may be absent (\<open>undefined\<close>). \<open>truthy\<close> is the test
  \<open>if (x)\<close> and \<open>or_else x d\<close> is \<open>x || d\<close> for a string-valued field: the absent value
  and the empty string are the falsy ones.
\<close>

definition truthy :: "jsstring option \<Rightarrow> bool" where
  "truthy x = (case x of None \<Rightarrow> False | Some s \<Rightarrow> s \<noteq> [])"

definition or_else :: "jsstring option \<Rightarrow> jsstring \<Rightarrow> jsstring" where
  "or_else x d = (case x of None \<Rightarrow> d | Some s \<Rightarrow> if s = [] then d else s)"


section \<open>utils.js: field validation\<close>

text \<open>
  The pattern \<open>/^WB-[A-Z]\d{4}-\d{4}-[A-Z]$/i\<close> is a sequence of fifteen one-character
  atoms between the anchors, so \<open>pattern.test\<close> is a position-wise comparison.
  With the \<open>i\<close> flag (and no \<open>u\<close> flag) a code unit is compared after Canonicalize,
  which upper-cases it but never maps a code unit from 128 upwards to one below 128;
  against the ASCII characters of this pattern that is ASCII case folding, which is what
  \<open>canonicalize\<close> keeps. \<open>\d\<close> is \<open>[0-9]\<close>.
\<close>

datatype atom = Ch code_unit | AZ | Digit

definition canonicalize :: "code_unit \<Rightarrow> code_unit" where
  "canonicalize ch = (if 0x61 \<le> ch \<and> ch \<le> 0x7A then ch - 0x20 else ch)"

fun atom_test :: "atom \<Rightarrow> code_unit \<Rightarrow> bool" where
  "atom_test (Ch c) ch = (canonicalize ch = canonicalize c)"
| "atom_test AZ ch = (0x41 \<le> canonicalize ch \<and> canonicalize ch \<le> 0x5A)"
| "atom_test Digit ch = (0x30 \<le> ch \<and> ch \<le> 0x39)"

definition pattern :: "atom list" where
  "pattern =
     [Ch 0x57, Ch 0x42, Ch 0x2D, AZ, Digit, Digit, Digit, Digit, Ch 0x2D,
      Digit, Digit, Digit, Digit, Ch 0x2D, AZ]"

definition pattern_test :: "jsstring \<Rightarrow> bool" where
  "pattern_test s = list_all2 atom_test pattern s"

definition validateWorkBom :: "jsstring \<Rightarrow> bool" where
  "validateWorkBom v =
     (if v = [] \<or> trim v = [] then True
      else pattern_test (trim v))"

definition validateProjectName :: "jsstring \<Rightarrow> bool" where
  "validateProjectName v =
     (if v = [] \<or> trim v = [] then True
      else (let trimmed = trim v in 3 \<le> length trimmed \<and> length trimmed \<le> 200))"

text \<open>
  The format as the specification words it: \<open>WB-\<close>, one letter, four digits, \<open>-\<close>,
  four digits, \<open>-\<close>, one letter, letters in either case.
\<close>

definition is_letter :: "code_unit \<Rightarrow> bool" where
  "is_letter c \<longleftrightarrow> (0x41 \<le> c \<and> c \<le> 0x5A) \<or> (0x61 \<le> c \<and> c \<le> 0x7A)"

definition is_digit :: "code_unit \<Rightarrow> bool" where
  "is_digit c \<longleftrightarrow> 0x30 \<le> c \<and> c \<le> 0x39"

definition spec_workBom_format :: "jsstring \<Rightarrow> bool" where
  "spec_workBom_format s \<longleftrightarrow>
     length s = 15 \<and>
     (s ! 0 = 0x57 \<or> s ! 0 = 0x77) \<and> (s ! 1 = 0x42 \<or> s ! 1 = 0x62) \<and> s ! 2 = 0x2D \<and>
     is_letter (s ! 3) \<and>
     list_all is_digit (take 4 (drop 4 s)) \<and> s ! 8 = 0x2D \<and>
     list_all is_digit (take 4 (drop 9 s)) \<and> s ! 13 = 0x2D \<and>
     is_letter (s ! 14)"


section \<open>TaskManager.js: the ordered task list\<close>

record task =
  detail :: jsstring
  status :: jsstring
  remark :: jsstring

text \<open>The argument of \<open>addTask\<close>: any of the three fields may be missing.\<close>

record partial_task =
  p_detail :: "jsstring option"
  p_status :: "jsstring option"
  p_remark :: "jsstring option"

definition no_fields :: partial_task where
  "no_fields = \<lparr>p_detail = None, p_status = None, p_remark = None\<rparr>"

text \<open>
  The state of the task manager is its array \<open>this.tasks\<close>. Every operation takes the
  array and returns its result together with the array afterwards. Listeners are only
  notified; the one the application registers writes form fields of the page and changes
  neither manager, so notification is not part of the state. An index is a JavaScript
  number that the callers take from \<open>parseInt\<close>; it is modelled as an integer.
\<close>

definition setTasks :: "task list option \<Rightarrow> task list \<Rightarrow> task list" where
  "setTasks new tasks = (case new of None \<Rightarrow> [] | Some ts \<Rightarrow> ts)"

definition getTasks :: "task list \<Rightarrow> task list" where
  "getTasks tasks = tasks"

definition addTask :: "partial_task \<Rightarrow> task list \<Rightarrow> nat \<times> task list" where
  "addTask t tasks =
     (let newTask = \<lparr>detail = or_else (p_detail t) [],
                     status = or_else (p_status t) (ascii ''OK''),
                     remark = or_else (p_remark t) []\<rparr>;
          tasks' = tasks @ [newTask]
      in (length tasks' - 1, tasks'))"

definition removeTask :: "int \<Rightarrow> task list \<Rightarrow> bool \<times> task list" where
  "removeTask index tasks =
     (if index < 0 \<or> index \<ge> int (length tasks) then (False, tasks)
      else (True, take (nat index) tasks @ drop (nat index + 1) tasks))"

text \<open>
  The destructuring assignment \<open>[a[i - 1], a[i]] = [a[i], a[i - 1]]\<close> reads both
  elements first and then stores them one after the other.
\<close>

definition moveTaskUp :: "int \<Rightarrow> task list \<Rightarrow> bool \<times> task list" where
  "moveTaskUp index tasks =
     (if index \<le> 0 \<or> index \<ge> int (length tasks) then (False, tasks)
      else (let i = nat index;
                fst_val = tasks ! i;
                snd_val = tasks ! (i - 1)
            in (True, (tasks[i - 1 := fst_val])[i := snd_val])))"

definition moveTaskDown :: "int \<Rightarrow> task list \<Rightarrow> bool \<times> task list" where
  "moveTaskDown index tasks =
     (if index < 0 \<or> index \<ge> int (length tasks) - 1 then (False, tasks)
      else (let i = nat index;
                fst_val = tasks ! (i + 1);
                snd_val = tasks ! i
            in (True, (tasks[i := fst_val])[i + 1 := snd_val])))"

definition clearTasks :: "task list \<Rightarrow> task list" where
  "clearTasks tasks = []"


section \<open>StorageManager.js: draft and history in localStorage\<close>

text \<open>
  The draft record as it is serialised: the three scalar fields and the task array.
  A record that comes back from \<open>JSON.parse\<close> or from an import file may lack any of
  them.
\<close>

record report_data =
  workBom :: "jsstring option"
  projectName :: "jsstring option"
  problems :: "jsstring option"
  tasks :: "task list option"

record history_item =
  timestamp :: jsstring
  data :: report_data

text \<open>
  What \<open>localStorage.getItem\<close> finds under a key: nothing, text that \<open>JSON.parse\<close>
  rejects, or the JSON text of a value. \<open>setItem\<close> either stores or throws; which of
  the two is the browser's decision on the contents the store would have after the write
  (\<open>quota\<close>), with the quota error told apart from any other.
\<close>

datatype 'a stored = Absent | Corrupt | Json 'a

record localStorage =
  reportData :: "report_data stored"
  reportHistory :: "history_item list stored"
  theme :: "jsstring option"

datatype dom_exception = QuotaExceededError | OtherError

record StorageManager =
  isAvailable :: bool
  storage :: localStorage
  quota :: "localStorage \<Rightarrow> dom_exception option"

definition MAX_HISTORY_ITEMS :: nat where
  "MAX_HISTORY_ITEMS = 20"

definition setItem :: "StorageManager \<Rightarrow> localStorage \<Rightarrow> dom_exception + StorageManager" where
  "setItem sm contents =
     (case quota sm contents of
        None \<Rightarrow> Inr (sm\<lparr>storage := contents\<rparr>)
      | Some e \<Rightarrow> Inl e)"

definition loadHistory :: "StorageManager \<Rightarrow> history_item list" where
  "loadHistory sm =
     (if \<not> isAvailable sm then []
      else (case reportHistory (storage sm) of Json h \<Rightarrow> h | Absent \<Rightarrow> [] | Corrupt \<Rightarrow> []))"

text \<open>Assigning a smaller \<open>length\<close> to an array keeps its first elements.\<close>

definition handleQuotaExceeded :: "StorageManager \<Rightarrow> StorageManager" where
  "handleQuotaExceeded sm =
     (let history = loadHistory sm in
      if length history > 5 then
        (let history' = take (length history div 2) history in
         case setItem sm ((storage sm)\<lparr>reportHistory := Json history'\<rparr>) of
           Inr sm' \<Rightarrow> sm'
         | Inl e \<Rightarrow> sm)
      else sm)"

definition saveReportData :: "StorageManager \<Rightarrow> report_data \<Rightarrow> bool \<times> StorageManager" where
  "saveReportData sm d =
     (if \<not> isAvailable sm then (False, sm)
      else (case setItem sm ((storage sm)\<lparr>reportData := Json d\<rparr>) of
              Inr sm' \<Rightarrow> (True, sm')
            | Inl e \<Rightarrow> (False, if e = QuotaExceededError then handleQuotaExceeded sm else sm)))"

text \<open>
  The guard of \<open>saveToHistory\<close> ("Don't save empty reports"), as the source writes it:
  it looks at \<open>tasks[0]\<close> only.
\<close>

definition empty_report_guard :: "report_data \<Rightarrow> bool" where
  "empty_report_guard d \<longleftrightarrow>
     \<not> truthy (workBom d) \<and> \<not> truthy (projectName d) \<and>
     (case tasks d of
        None \<Rightarrow> True
      | Some ts \<Rightarrow> (case ts of [] \<Rightarrow> True | t # rest \<Rightarrow> detail t = []))"

text \<open>
  \<open>now\<close> is the text of \<open>new Date().toLocaleString('th-TH')\<close>. \<open>structuredClone\<close>
  copies the record; values here are immutable, so the copy is the value.
\<close>

definition saveToHistory :: "StorageManager \<Rightarrow> jsstring \<Rightarrow> report_data \<Rightarrow> bool \<times> StorageManager" where
  "saveToHistory sm now d =
     (if \<not> isAvailable sm then (False, sm)
      else if empty_report_guard d then (False, sm)
      else
        (let history = loadHistory sm;
             historyItem = \<lparr>timestamp = now, data = d\<rparr>;
             history1 = historyItem # history;
             history2 = (if length history1 > MAX_HISTORY_ITEMS
                         then take MAX_HISTORY_ITEMS history1 else history1)
         in case setItem sm ((storage sm)\<lparr>reportHistory := Json history2\<rparr>) of
              Inr sm' \<Rightarrow> (True, sm')
            | Inl e \<Rightarrow> (False, if e = QuotaExceededError then handleQuotaExceeded sm else sm)))"

text \<open>
  Semantic emptiness as the specification words it: no BOM, no project, and no task with
  a non-empty detail.
\<close>

definition spec_semantically_empty :: "report_data \<Rightarrow> bool" where
  "spec_semantically_empty d \<longleftrightarrow>
     \<not> truthy (workBom d) \<and> \<not> truthy (projectName d) \<and>
     (case tasks d of None \<Rightarrow> True | Some ts \<Rightarrow> list_all (\<lambda>t. detail t = []) ts)"


section \<open>ReportManager.js: the report state\<close>

record report_state =
  st_workBom :: jsstring
  st_projectName :: jsstring
  st_problems :: jsstring

text \<open>
  One session holds the three singletons: the scalar fields of the report manager, the
  array of the task manager and the storage manager.
\<close>

record session =
  rm_state :: report_state
  tm_tasks :: "task list"
  storage_mgr :: StorageManager

definition getState :: "session \<Rightarrow> report_data" where
  "getState s =
     \<lparr>workBom = Some (st_workBom (rm_state s)),
      projectName = Some (st_projectName (rm_state s)),
      problems = Some (st_problems (rm_state s)),
      tasks = Some (getTasks (tm_tasks s))\<rparr>"

definition save :: "session \<Rightarrow> session" where
  "save s = s\<lparr>storage_mgr := snd (saveReportData (storage_mgr s) (getState s))\<rparr>"

definition restoreFromHistory :: "session \<Rightarrow> report_data \<Rightarrow> session" where
  "restoreFromHistory s historyData =
     (let s1 = s\<lparr>rm_state := \<lparr>st_workBom = or_else (workBom historyData) [],
                              st_projectName = or_else (projectName historyData) [],
                              st_problems = or_else (problems historyData) []\<rparr>\<rparr>;
          s2 = (case tasks historyData of
                  Some (t # ts) \<Rightarrow> s1\<lparr>tm_tasks := setTasks (Some (t # ts)) (tm_tasks s1)\<rparr>
                | _ \<Rightarrow> s1\<lparr>tm_tasks := snd (addTask no_fields (clearTasks (tm_tasks s1)))\<rparr>)
      in save s2)"

text \<open>
  The method \<open>import\<close> (here \<open>import_report\<close>) runs its body inside \<open>try\<close>; what was assigned before a throw stays
  assigned, so the body returns the session as it is when the body ends, with the error
  if it threw.
\<close>

datatype js_error = Error jsstring

record import_envelope =
  version :: "jsstring option"
  exportDate :: "jsstring option"
  envelope_data :: "report_data option"

definition import_body :: "session \<Rightarrow> import_envelope \<Rightarrow> js_error option \<times> session" where
  "import_body s importData =
     (case envelope_data importData of
        None \<Rightarrow> (Some (Error (ascii ''Invalid import format'')), s)
      | Some d \<Rightarrow>
          (let s1 = s\<lparr>rm_state := \<lparr>st_workBom = or_else (workBom d) [],
                                   st_projectName = or_else (projectName d) [],
                                   st_problems = or_else (problems d) []\<rparr>\<rparr>;
               s2 = (case tasks d of
                       Some ts \<Rightarrow> s1\<lparr>tm_tasks := setTasks (Some ts) (tm_tasks s1)\<rparr>
                     | None \<Rightarrow> s1)
           in (None, save s2)))"

definition import_report :: "session \<Rightarrow> import_envelope \<Rightarrow> bool \<times> session" where
  "import_report s importData =
     (case import_body s importData of
        (None, s') \<Rightarrow> (True, s')
      | (Some error, s') \<Rightarrow> (False, s'))"


subsection \<open>generateReport\<close>

text \<open>
  \<open>dateStr\<close> is the text of \<open>formatDate(new Date())\<close>. The local \<open>data\<close> of the source
  is \<open>this.getState()\<close>: its scalar fields are those of the report state and its
  \<open>tasks\<close> is the array of the task manager, which is where the model reads them.
\<close>

definition separator :: jsstring where
  "separator = replicate 30 0x2D"

definition hdr_date :: jsstring where
  "hdr_date = [0xD83D, 0xDCC5, 0x20, 0xE23, 0xE32, 0xE22, 0xE07, 0xE32, 0xE19, 0xE27,
               0xE31, 0xE19, 0xE17, 0xE35, 0xE48, 0x3A, 0x20]"

definition hdr_workBom :: jsstring where
  "hdr_workBom = [0xD83D, 0xDD16] @ ascii '' Work BOM : ''"

definition hdr_project :: jsstring where
  "hdr_project = [0xD83C, 0xDFF7, 0xFE0F] @ ascii '' Project : ''"

definition hdr_tasks :: jsstring where
  "hdr_tasks = [0x2705, 0x20, 0x2A, 0x2A, 0xE23, 0xE32, 0xE22, 0xE25, 0xE30, 0xE40,
                0xE2D, 0xE35, 0xE22, 0xE14, 0xE07, 0xE32, 0xE19, 0x2A, 0x2A]"

definition lbl_status :: jsstring where
  "lbl_status = ascii ''   '' @ [0xD83D, 0xDEA6] @ ascii '' Status: ''"

definition lbl_remark :: jsstring where
  "lbl_remark = ascii ''   '' @ [0xD83D, 0xDCAC] @ ascii '' Remark: ''"

definition no_items :: jsstring where
  "no_items = [0x2D, 0x20, 0xE44, 0xE21, 0xE48, 0xE21, 0xE35, 0xE23, 0xE32, 0xE22,
               0xE01, 0xE32, 0xE23, 0x20, 0x2D]"

definition hdr_problems :: jsstring where
  "hdr_problems = [0xD83D, 0xDCCC, 0x20, 0x2A, 0x2A, 0xE1B, 0xE31, 0xE0D, 0xE2B, 0xE32,
                   0x2A, 0x2A]"

text \<open>
  The callback of \<open>data.tasks.forEach((task, index) => ...)\<close>: it pushes onto \<open>parts\<close>
  and sets \<open>hasTasks\<close>, the two variables it closes over.
\<close>

definition task_callback :: "jsstring list \<times> bool \<Rightarrow> task \<times> nat \<Rightarrow> jsstring list \<times> bool" where
  "task_callback acc ti =
     (case acc of (parts, hasTasks) \<Rightarrow>
      case ti of (task, index) \<Rightarrow>
        if detail task \<noteq> [] then
          (let taskNumber = index + 1;
               parts1 = parts @ [toString taskNumber @ ascii ''. '' @ detail task];
               parts2 = parts1 @ [lbl_status @ status task];
               parts3 = (if remark task \<noteq> [] \<and> remark task \<noteq> ascii ''-''
                         then parts2 @ [lbl_remark @ remark task] else parts2)
           in (parts3, True))
        else (parts, hasTasks))"

definition forEach_task :: "jsstring list \<times> bool \<Rightarrow> task list \<Rightarrow> jsstring list \<times> bool" where
  "forEach_task acc ts = foldl task_callback acc (zip ts [0 ..< length ts])"

definition generateReport :: "jsstring \<Rightarrow> session \<Rightarrow> jsstring" where
  "generateReport dateStr s =
     (let st = rm_state s;
          ts = getTasks (tm_tasks s);
          parts0 = [hdr_date @ dateStr];
          parts1 = (if st_workBom st \<noteq> [] then parts0 @ [hdr_workBom @ st_workBom st] else parts0);
          parts2 = (if st_projectName st \<noteq> []
                    then parts1 @ [hdr_project @ st_projectName st] else parts1);
          parts3 = (if st_workBom st \<noteq> [] \<or> st_projectName st \<noteq> []
                    then parts2 @ [separator] else parts2);
          parts4 = parts3 @ [hdr_tasks];
          parts5 = (if length ts > 0 then
                      (case forEach_task (parts4, False) ts of
                         (parts, hasTasks) \<Rightarrow> if \<not> hasTasks then parts @ [no_items] else parts)
                    else parts4 @ [no_items]);
          parts6 = (if st_problems st \<noteq> []
                    then parts5 @ [separator] @ [hdr_problems] @ [st_problems st] else parts5)
      in trim (join [0x0A] parts6))"


section \<open>Example inputs\<close>

text \<open>Concrete tasks, sessions and stores on which the theorems below are instantiated.\<close>

definition blank_task :: task where
  "blank_task = \<lparr>detail = [], status = ascii ''OK'', remark = []\<rparr>"

definition example_task :: "string \<Rightarrow> task" where
  "example_task d = \<lparr>detail = ascii d, status = ascii ''OK'', remark = []\<rparr>"

definition example_data :: report_data where
  "example_data =
     \<lparr>workBom = Some (ascii ''WB-S2407-0105-A''), projectName = Some (ascii ''Line 4''),
      problems = Some [], tasks = Some [example_task ''Fix bug'']\<rparr>"

definition example_item :: "nat \<Rightarrow> history_item" where
  "example_item n = \<lparr>timestamp = toString n, data = example_data\<rparr>"

text \<open>
  A browser that refuses, with the quota error, any write after which the history would
  hold more than \<open>k\<close> entries.
\<close>

definition quota_limit :: "nat \<Rightarrow> localStorage \<Rightarrow> dom_exception option" where
  "quota_limit k contents =
     (case reportHistory contents of
        Json h \<Rightarrow> if length h > k then Some QuotaExceededError else None
      | Absent \<Rightarrow> None
      | Corrupt \<Rightarrow> None)"

definition example_store :: "history_item list \<Rightarrow> nat \<Rightarrow> StorageManager" where
  "example_store h k =
     \<lparr>isAvailable = True,
      storage = \<lparr>reportData = Absent, reportHistory = Json h, theme = None\<rparr>,
      quota = quota_limit k\<rparr>"

definition example_session :: "task list \<Rightarrow> session" where
  "example_session ts =
     \<lparr>rm_state = \<lparr>st_workBom = [], st_projectName = [], st_problems = []\<rparr>,
      tm_tasks = ts,
      storage_mgr = example_store [] 20\<rparr>"

definition example_report_session :: session where
  "example_report_session =
     \<lparr>rm_state = \<lparr>st_workBom = ascii ''WB-S2407-0105-A'', st_projectName = [],
                  st_problems = ascii ''late''\<rparr>,
      tm_tasks = [blank_task, example_task ''a'', blank_task,
                  \<lparr>detail = ascii ''b'', status = ascii ''NG'', remark = ascii ''urgent''\<rparr>],
      storage_mgr = example_store [] 20\<rparr>"


section \<open>The task list: adjacent swaps\<close>

text \<open>
  C5: for every task list and every index, \<open>moveTaskUp\<close> exchanges the record at the
  index with its predecessor and returns true when the index is strictly between 0 and the
  length, and returns false leaving the list as it is when the index is at most 0 or at
  least the length; \<open>moveTaskDown\<close> exchanges with the successor, and returns false
  leaving the list as it is when the index is negative or at least the length minus one.
  An exchange keeps the length and every other position.
\<close>

theorem moveTask_adjacent_swap:
  "(0 < index \<and> index < int (length ts) \<longrightarrow>
      fst (moveTaskUp index ts) \<and>
      length (snd (moveTaskUp index ts)) = length ts \<and>
      snd (moveTaskUp index ts) ! (nat index - 1) = ts ! nat index \<and>
      snd (moveTaskUp index ts) ! nat index = ts ! (nat index - 1) \<and>
      (\<forall>j < length ts. j \<noteq> nat index \<and> j \<noteq> nat index - 1 \<longrightarrow>
         snd (moveTaskUp index ts) ! j = ts ! j)) \<and>
   (index \<le> 0 \<or> int (length ts) \<le> index \<longrightarrow> moveTaskUp index ts = (False, ts)) \<and>
   (0 \<le> index \<and> index < int (length ts) - 1 \<longrightarrow>
      fst (moveTaskDown index ts) \<and>
      length (snd (moveTaskDown index ts)) = length ts \<and>
      snd (moveTaskDown index ts) ! (nat index + 1) = ts ! nat index \<and>
      snd (moveTaskDown index ts) ! nat index = ts ! (nat index + 1) \<and>
      (\<forall>j < length ts. j \<noteq> nat index \<and> j \<noteq> nat index + 1 \<longrightarrow>
         snd (moveTaskDown index ts) ! j = ts ! j)) \<and>
   (index < 0 \<or> int (length ts) - 1 \<le> index \<longrightarrow> moveTaskDown index ts = (False, ts))"
  by (auto simp: moveTaskUp_def moveTaskDown_def Let_def nth_list_update)

theorem moveTask_adjacent_swap_witness:
  "(0 < (1::int) \<and> 1 < int (length [example_task ''a'', example_task ''b'', example_task ''c''])) \<and>
   moveTaskUp 1 [example_task ''a'', example_task ''b'', example_task ''c'']
     = (True, [example_task ''b'', example_task ''a'', example_task ''c'']) \<and>
   moveTaskUp 0 [example_task ''a'', example_task ''b'', example_task ''c'']
     = (False, [example_task ''a'', example_task ''b'', example_task ''c'']) \<and>
   moveTaskUp 3 [example_task ''a'', example_task ''b'', example_task ''c'']
     = (False, [example_task ''a'', example_task ''b'', example_task ''c'']) \<and>
   moveTaskDown 1 [example_task ''a'', example_task ''b'', example_task ''c'']
     = (True, [example_task ''a'', example_task ''c'', example_task ''b'']) \<and>
   moveTaskDown 2 [example_task ''a'', example_task ''b'', example_task ''c'']
     = (False, [example_task ''a'', example_task ''b'', example_task ''c''])"
  using moveTask_adjacent_swap [of 1 "[example_task ''a'', example_task ''b'', example_task ''c'']"]
    moveTask_adjacent_swap [of 0 "[example_task ''a'', example_task ''b'', example_task ''c'']"]
    moveTask_adjacent_swap [of 3 "[example_task ''a'', example_task ''b'', example_task ''c'']"]
    moveTask_adjacent_swap [of 2 "[example_task ''a'', example_task ''b'', example_task ''c'']"]
  by (simp add: moveTaskUp_def moveTaskDown_def Let_def)


section \<open>The report state: restore and import\<close>

text \<open>
  C7: for every session whose task list is not empty, restoring from the snapshot that
  \<open>getState\<close> builds gives back the scalar fields (workBom, projectName, problems) and
  the task array, in the same order.
\<close>

theorem restore_getState_roundtrip:
  "tm_tasks s \<noteq> [] \<Longrightarrow>
   rm_state (restoreFromHistory s (getState s)) = rm_state s \<and>
   tm_tasks (restoreFromHistory s (getState s)) = tm_tasks s"
  by (cases "tm_tasks s")
     (simp_all add: restoreFromHistory_def getState_def Let_def save_def setTasks_def
        getTasks_def or_else_def)

theorem restore_getState_roundtrip_witness:
  "tm_tasks (example_session [example_task ''a'', blank_task]) \<noteq> [] \<and>
   rm_state (restoreFromHistory (example_session [example_task ''a'', blank_task])
               (getState (example_session [example_task ''a'', blank_task])))
     = \<lparr>st_workBom = [], st_projectName = [], st_problems = []\<rparr> \<and>
   tm_tasks (restoreFromHistory (example_session [example_task ''a'', blank_task])
               (getState (example_session [example_task ''a'', blank_task])))
     = [example_task ''a'', blank_task]"
  using restore_getState_roundtrip [of "example_session [example_task ''a'', blank_task]"]
  by (simp add: example_session_def)

text \<open>
  C8: for every import envelope whose \<open>data\<close> field is absent, \<open>import\<close> returns false
  and the session (scalar fields, task list and store) is exactly what it was.
\<close>

theorem import_without_data_fails:
  "envelope_data importData = None \<Longrightarrow> import_report s importData = (False, s)"
  by (simp add: import_report_def import_body_def)

theorem import_without_data_fails_witness:
  "envelope_data \<lparr>version = Some (ascii ''1.0''), exportDate = None, envelope_data = None\<rparr> = None \<and>
   import_report (example_session [example_task ''a''])
     \<lparr>version = Some (ascii ''1.0''), exportDate = None, envelope_data = None\<rparr>
   = (False, example_session [example_task ''a''])"
  using import_without_data_fails
    [of "\<lparr>version = Some (ascii ''1.0''), exportDate = None, envelope_data = None\<rparr>"
        "example_session [example_task ''a'']"]
  by simp

text \<open>
  C9: importing an envelope whose \<open>data\<close> is present and whose \<open>data.tasks\<close> is the
  empty array returns true and leaves the live task list with no task, whereas restoring
  from history a snapshot with the empty task array leaves exactly one blank task.
\<close>

theorem import_empty_tasks_leaves_no_task:
  "(envelope_data importData = Some d \<and> tasks d = Some [] \<longrightarrow>
      fst (import_report s importData) \<and> tm_tasks (snd (import_report s importData)) = []) \<and>
   (tasks d = Some [] \<longrightarrow>
      tm_tasks (restoreFromHistory s d) = [\<lparr>detail = [], status = ascii ''OK'', remark = []\<rparr>])"
  by (simp add: import_report_def import_body_def restoreFromHistory_def Let_def save_def
        setTasks_def addTask_def clearTasks_def no_fields_def or_else_def)

theorem import_empty_tasks_leaves_no_task_witness:
  "envelope_data \<lparr>version = None, exportDate = None,
                  envelope_data = Some (example_data\<lparr>tasks := Some []\<rparr>)\<rparr>
     = Some (example_data\<lparr>tasks := Some []\<rparr>) \<and>
   tasks (example_data\<lparr>tasks := Some []\<rparr>) = Some [] \<and>
   fst (import_report (example_session [example_task ''a''])
          \<lparr>version = None, exportDate = None,
           envelope_data = Some (example_data\<lparr>tasks := Some []\<rparr>)\<rparr>) \<and>
   tm_tasks (snd (import_report (example_session [example_task ''a''])
          \<lparr>version = None, exportDate = None,
           envelope_data = Some (example_data\<lparr>tasks := Some []\<rparr>)\<rparr>)) = [] \<and>
   length (tm_tasks (restoreFromHistory (example_session [example_task ''a''])
          (example_data\<lparr>tasks := Some []\<rparr>))) = 1"
  using import_empty_tasks_leaves_no_task
    [of "\<lparr>version = None, exportDate = None,
          envelope_data = Some (example_data\<lparr>tasks := Some []\<rparr>)\<rparr>"
        "example_data\<lparr>tasks := Some []\<rparr>"
        "example_session [example_task ''a'']"]
  by simp


section \<open>The history store\<close>

text \<open>What a successful or failed write means for \<open>loadHistory\<close>.\<close>

lemma loadHistory_setItem:
  "isAvailable sm \<Longrightarrow> setItem sm ((storage sm)\<lparr>reportHistory := Json h\<rparr>) = Inr sm' \<Longrightarrow>
   loadHistory sm' = h"
  by (auto simp: setItem_def loadHistory_def split: option.splits)

lemma loadHistory_handleQuotaExceeded:
  "loadHistory (handleQuotaExceeded sm) =
     (if 5 < length (loadHistory sm) \<and>
         quota sm ((storage sm)\<lparr>reportHistory := Json (take (length (loadHistory sm) div 2) (loadHistory sm))\<rparr>) = None
      then take (length (loadHistory sm) div 2) (loadHistory sm)
      else loadHistory sm)"
proof (cases "isAvailable sm")
  case False
  then show ?thesis
    by (simp add: handleQuotaExceeded_def loadHistory_def)
next
  case True
  then show ?thesis
    by (auto simp: handleQuotaExceeded_def Let_def setItem_def loadHistory_def split: option.splits)
qed

lemma handleQuotaExceeded_small:
  "length (loadHistory sm) \<le> 5 \<Longrightarrow> handleQuotaExceeded sm = sm"
  by (simp add: handleQuotaExceeded_def Let_def)

lemma length_handleQuotaExceeded:
  "length (loadHistory (handleQuotaExceeded sm)) \<le> length (loadHistory sm)"
  by (simp add: loadHistory_handleQuotaExceeded)

lemma saveToHistory_unfold:
  assumes "isAvailable sm" "\<not> empty_report_guard d"
  shows "saveToHistory sm now d =
     (case setItem sm ((storage sm)\<lparr>reportHistory :=
               Json (take MAX_HISTORY_ITEMS (\<lparr>timestamp = now, data = d\<rparr> # loadHistory sm))\<rparr>) of
        Inr sm' \<Rightarrow> (True, sm')
      | Inl e \<Rightarrow> (False, if e = QuotaExceededError then handleQuotaExceeded sm else sm))"
proof -
  have cap: "(if length xs > MAX_HISTORY_ITEMS then take MAX_HISTORY_ITEMS xs else xs)
             = take MAX_HISTORY_ITEMS xs" for xs :: "history_item list"
    by simp
  show ?thesis
    using assms unfolding saveToHistory_def Let_def cap by simp
qed

lemma saveToHistory_refused:
  "\<not> isAvailable sm \<or> empty_report_guard d \<Longrightarrow> saveToHistory sm now d = (False, sm)"
  by (auto simp: saveToHistory_def)

lemma saveToHistory_success:
  assumes "fst (saveToHistory sm now d)"
  shows "isAvailable sm \<and> \<not> empty_report_guard d \<and>
         loadHistory (snd (saveToHistory sm now d)) =
           take MAX_HISTORY_ITEMS (\<lparr>timestamp = now, data = d\<rparr> # loadHistory sm)"
proof -
  have "\<not> (\<not> isAvailable sm \<or> empty_report_guard d)"
  proof
    assume "\<not> isAvailable sm \<or> empty_report_guard d"
    then have "saveToHistory sm now d = (False, sm)"
      by (rule saveToHistory_refused)
    with assms show False by simp
  qed
  then have a: "isAvailable sm" and g: "\<not> empty_report_guard d"
    by simp_all
  from assms show ?thesis
    unfolding saveToHistory_unfold [OF a g]
    by (auto simp: a g dest: loadHistory_setItem [OF a] split: sum.splits)
qed

lemma saveToHistory_failure:
  assumes "\<not> fst (saveToHistory sm now d)"
  shows "snd (saveToHistory sm now d) = sm \<or> snd (saveToHistory sm now d) = handleQuotaExceeded sm"
proof (cases "isAvailable sm \<and> \<not> empty_report_guard d")
  case True
  with assms show ?thesis
    by (auto simp: saveToHistory_unfold split: sum.splits)
next
  case False
  then show ?thesis
    using saveToHistory_refused [of sm d now] by auto
qed

lemma saveToHistory_accepts:
  assumes "isAvailable sm" "\<not> empty_report_guard d"
    and "quota sm ((storage sm)\<lparr>reportHistory :=
           Json (take MAX_HISTORY_ITEMS (\<lparr>timestamp = now, data = d\<rparr> # loadHistory sm))\<rparr>) = None"
  shows "fst (saveToHistory sm now d)"
  using assms
  by (simp add: saveToHistory_unfold setItem_def)

lemma guard_example: "\<not> empty_report_guard example_data"
  by (simp add: empty_report_guard_def example_data_def truthy_def ascii_def)

text \<open>
  Every snapshot that is semantically empty in the specification's sense is refused by
  the guard of the source. The converse fails, see below.
\<close>

lemma spec_empty_is_refused:
  "spec_semantically_empty d \<Longrightarrow> empty_report_guard d"
  by (auto simp: spec_semantically_empty_def empty_report_guard_def split: option.splits list.splits)

text \<open>
  C2: appending to history is refused, with no write, if and only if the snapshot is
  semantically empty (no BOM, no project name, no task with a non-empty detail); a
  snapshot whose first task has an empty detail and whose later task has a non-empty one
  is not refused. The source's guard reads the detail of \<open>tasks[0]\<close> only: in the session
  with no BOM, no project name and the tasks blank, \<open>x\<close>, the snapshot is not semantically
  empty, and \<open>saveToHistory\<close> returns false and writes nothing.
\<close>

theorem saveToHistory_refuses_later_task:
  "\<not> spec_semantically_empty (getState (example_session [blank_task, example_task ''x''])) \<and>
   saveToHistory (storage_mgr (example_session [blank_task, example_task ''x''])) (toString 30)
      (getState (example_session [blank_task, example_task ''x'']))
   = (False, storage_mgr (example_session [blank_task, example_task ''x'']))"
  by (simp add: saveToHistory_def empty_report_guard_def spec_semantically_empty_def getState_def
        getTasks_def example_session_def example_store_def blank_task_def example_task_def
        truthy_def ascii_def)

text \<open>
  C4, as the source has it: for every stored history of 20 entries, an append that
  succeeds keeps the length at 20, drops the last (oldest) entry and puts the new entry at
  index 0. After any successful append the history has at most 20 entries and the new
  entry is at index 0, and a history of at most 20 entries has at most 20 after any call,
  successful or not. The append succeeds whenever the store is available, the workBom,
  the projectName or the detail of the first task of the snapshot is non-empty, and the
  browser accepts the write.
\<close>

theorem saveToHistory_cap:
  "(fst (saveToHistory sm now d) \<longrightarrow>
      length (loadHistory (snd (saveToHistory sm now d))) \<le> 20 \<and>
      loadHistory (snd (saveToHistory sm now d)) ! 0 = \<lparr>timestamp = now, data = d\<rparr>) \<and>
   (fst (saveToHistory sm now d) \<and> length (loadHistory sm) = 20 \<longrightarrow>
      loadHistory (snd (saveToHistory sm now d)) =
        \<lparr>timestamp = now, data = d\<rparr> # butlast (loadHistory sm) \<and>
      length (loadHistory (snd (saveToHistory sm now d))) = 20) \<and>
   (length (loadHistory sm) \<le> 20 \<longrightarrow>
      length (loadHistory (snd (saveToHistory sm now d))) \<le> 20) \<and>
   (isAvailable sm \<and> \<not> empty_report_guard d \<and>
    quota sm ((storage sm)\<lparr>reportHistory :=
      Json (take 20 (\<lparr>timestamp = now, data = d\<rparr> # loadHistory sm))\<rparr>) = None \<longrightarrow>
      fst (saveToHistory sm now d))"
proof -
  have cap: ?thesis if accepts:
    "isAvailable sm \<and> \<not> empty_report_guard d \<and>
     quota sm ((storage sm)\<lparr>reportHistory :=
       Json (take 20 (\<lparr>timestamp = now, data = d\<rparr> # loadHistory sm))\<rparr>) = None \<longrightarrow>
     fst (saveToHistory sm now d)"
  proof (cases "fst (saveToHistory sm now d)")
    case True
    note ok = saveToHistory_success [OF True]
    have "length (loadHistory sm) = 20 \<Longrightarrow> take 19 (loadHistory sm) = butlast (loadHistory sm)"
      by (simp add: butlast_conv_take)
    with True ok show ?thesis
      by (simp add: MAX_HISTORY_ITEMS_def)
  next
    case False
    from saveToHistory_failure [OF False] length_handleQuotaExceeded [of sm]
    have "length (loadHistory (snd (saveToHistory sm now d))) \<le> length (loadHistory sm)"
      by auto
    with False accepts show ?thesis
      by simp
  qed
  show ?thesis
    by (rule cap) (simp add: saveToHistory_accepts [unfolded MAX_HISTORY_ITEMS_def])
qed

theorem saveToHistory_cap_witness:
  "fst (saveToHistory (example_store (map example_item (rev [10 ..< 30])) 20) (toString 30) example_data) \<and>
   length (loadHistory (example_store (map example_item (rev [10 ..< 30])) 20)) = 20 \<and>
   loadHistory (snd (saveToHistory (example_store (map example_item (rev [10 ..< 30])) 20) (toString 30) example_data))
     = map example_item (rev [11 ..< 31])"
  using saveToHistory_cap [of "example_store (map example_item (rev [10 ..< 30])) 20" "toString 30" example_data]
    saveToHistory_accepts [of "example_store (map example_item (rev [10 ..< 30])) 20" example_data "toString 30"]
  by (simp add: guard_example loadHistory_def example_store_def quota_limit_def MAX_HISTORY_ITEMS_def
       example_item_def)

text \<open>
  C4, as the claim states it (every append of a non-empty snapshot to a history of 20
  leaves 20 entries with the new one at index 0): in a browser that accepts at most 15
  history entries, the append of a snapshot with a BOM to a history of 20 fails with the
  quota error, returns false and leaves the 10 most recent old entries. And in a browser
  that accepts the write, the snapshot with no BOM, no project name and the tasks blank,
  \<open>x\<close> is refused by the guard: the call returns false and the 20 old entries stay.
\<close>

theorem saveToHistory_cap_counterexample:
  "length (loadHistory (example_store (map example_item (rev [10 ..< 30])) 15)) = 20 \<and>
   \<not> spec_semantically_empty example_data \<and>
   \<not> fst (saveToHistory (example_store (map example_item (rev [10 ..< 30])) 15) (toString 30) example_data) \<and>
   loadHistory (snd (saveToHistory (example_store (map example_item (rev [10 ..< 30])) 15)
                       (toString 30) example_data))
     = map example_item (rev [20 ..< 30]) \<and>
   length (loadHistory (snd (saveToHistory (example_store (map example_item (rev [10 ..< 30])) 15)
                       (toString 30) example_data))) = 10 \<and>
   length (loadHistory (example_store (map example_item (rev [10 ..< 30])) 20)) = 20 \<and>
   \<not> spec_semantically_empty (getState (example_session [blank_task, example_task ''x''])) \<and>
   quota_limit 20 \<lparr>reportData = Absent,
      reportHistory = Json (\<lparr>timestamp = toString 30,
                              data = getState (example_session [blank_task, example_task ''x''])\<rparr>
                            # map example_item (rev [11 ..< 30])),
      theme = None\<rparr> = None \<and>
   \<not> fst (saveToHistory (example_store (map example_item (rev [10 ..< 30])) 20) (toString 30)
            (getState (example_session [blank_task, example_task ''x'']))) \<and>
   loadHistory (snd (saveToHistory (example_store (map example_item (rev [10 ..< 30])) 20) (toString 30)
            (getState (example_session [blank_task, example_task ''x'']))))
     = map example_item (rev [10 ..< 30])"
  by (simp add: saveToHistory_def empty_report_guard_def loadHistory_def example_store_def
        quota_limit_def MAX_HISTORY_ITEMS_def handleQuotaExceeded_def setItem_def Let_def
        spec_semantically_empty_def example_data_def truthy_def ascii_def getState_def getTasks_def
        example_session_def blank_task_def example_task_def)

text \<open>What the recovery leaves in the store, and the two writes that lead to it.\<close>

lemma handleQuotaExceeded_eq:
  "handleQuotaExceeded sm =
     (if 5 < length (loadHistory sm) \<and>
         quota sm ((storage sm)\<lparr>reportHistory :=
           Json (take (length (loadHistory sm) div 2) (loadHistory sm))\<rparr>) = None
      then sm\<lparr>storage := (storage sm)\<lparr>reportHistory :=
             Json (take (length (loadHistory sm) div 2) (loadHistory sm))\<rparr>\<rparr>
      else sm)"
  by (auto simp: handleQuotaExceeded_def Let_def setItem_def split: option.splits)

lemma saveReportData_quota:
  "isAvailable sm \<Longrightarrow> quota sm ((storage sm)\<lparr>reportData := Json d\<rparr>) = Some QuotaExceededError \<Longrightarrow>
   saveReportData sm d = (False, handleQuotaExceeded sm)"
  by (simp add: saveReportData_def setItem_def)

lemma saveToHistory_quota:
  "isAvailable sm \<Longrightarrow> \<not> empty_report_guard d \<Longrightarrow>
   quota sm ((storage sm)\<lparr>reportHistory :=
     Json (take MAX_HISTORY_ITEMS (\<lparr>timestamp = now, data = d\<rparr> # loadHistory sm))\<rparr>)
     = Some QuotaExceededError \<Longrightarrow>
   saveToHistory sm now d = (False, handleQuotaExceeded sm)"
  by (simp add: saveToHistory_unfold setItem_def)

text \<open>
  C3, as the source has it: when a storage write (the draft write of \<open>saveReportData\<close>
  or the history write of \<open>saveToHistory\<close>) fails with the quota error, the call
  returns false and the store is what \<open>handleQuotaExceeded\<close> leaves; the failed write
  is not attempted again, so what it tried to write is not stored. The recovery replaces
  the stored history by its first half (the most recent \<open>n div 2\<close> entries, the oldest
  dropped; 10 entries become 5) when the stored history has more than 5 entries and the
  store accepts the shortened history; when it has 5 or fewer entries, or the store
  refuses the shortened history as well, the store is left exactly as it was.
\<close>

theorem quota_exceeded_no_retry:
  assumes "isAvailable sm"
  shows "(\<not> empty_report_guard d \<and>
          quota sm ((storage sm)\<lparr>reportHistory :=
            Json (take MAX_HISTORY_ITEMS (\<lparr>timestamp = now, data = d\<rparr> # loadHistory sm))\<rparr>)
            = Some QuotaExceededError \<longrightarrow>
            saveToHistory sm now d = (False, handleQuotaExceeded sm)) \<and>
         (quota sm ((storage sm)\<lparr>reportData := Json d\<rparr>) = Some QuotaExceededError \<longrightarrow>
            saveReportData sm d = (False, handleQuotaExceeded sm)) \<and>
         handleQuotaExceeded sm =
           (if 5 < length (loadHistory sm) \<and>
               quota sm ((storage sm)\<lparr>reportHistory :=
                 Json (take (length (loadHistory sm) div 2) (loadHistory sm))\<rparr>) = None
            then sm\<lparr>storage := (storage sm)\<lparr>reportHistory :=
                   Json (take (length (loadHistory sm) div 2) (loadHistory sm))\<rparr>\<rparr>
            else sm) \<and>
         loadHistory (handleQuotaExceeded sm) =
           (if 5 < length (loadHistory sm) \<and>
               quota sm ((storage sm)\<lparr>reportHistory :=
                 Json (take (length (loadHistory sm) div 2) (loadHistory sm))\<rparr>) = None
            then take (length (loadHistory sm) div 2) (loadHistory sm)
            else loadHistory sm)"
  using assms saveToHistory_quota [of sm d now] saveReportData_quota [of sm d]
    handleQuotaExceeded_eq [of sm] loadHistory_handleQuotaExceeded [of sm]
  by blast

theorem quota_exceeded_no_retry_witness:
  "isAvailable (example_store (map example_item (rev [10 ..< 20])) 10) \<and>
   \<not> empty_report_guard example_data \<and>
   saveToHistory (example_store (map example_item (rev [10 ..< 20])) 10) (toString 20) example_data
     = (False, example_store (map example_item (rev [15 ..< 20])) 10) \<and>
   saveToHistory (example_store (map example_item (rev [10 ..< 14])) 4) (toString 14) example_data
     = (False, example_store (map example_item (rev [10 ..< 14])) 4) \<and>
   saveToHistory (example_store (map example_item (rev [10 ..< 20])) 3) (toString 20) example_data
     = (False, example_store (map example_item (rev [10 ..< 20])) 3) \<and>
   saveReportData (example_store (map example_item (rev [10 ..< 20])) 5) example_data
     = (False, example_store (map example_item (rev [15 ..< 20])) 5)"
  using quota_exceeded_no_retry [of "example_store (map example_item (rev [10 ..< 20])) 10" example_data "toString 20"]
    quota_exceeded_no_retry [of "example_store (map example_item (rev [10 ..< 14])) 4" example_data "toString 14"]
    quota_exceeded_no_retry [of "example_store (map example_item (rev [10 ..< 20])) 3" example_data "toString 20"]
    quota_exceeded_no_retry [of "example_store (map example_item (rev [10 ..< 20])) 5" example_data "toString 20"]
  by (simp add: guard_example loadHistory_def example_store_def quota_limit_def MAX_HISTORY_ITEMS_def)

text \<open>
  C3, as the claim states it, at a stored history of 10 entries in a browser that accepts
  at most 10: the append of an eleventh fails with the quota error, the history is cut to
  5 entries, and although the store would accept the new entry in front of those 5, the
  source does not write again: the call returns false and the new entry is not stored.
\<close>

theorem quota_exceeded_retry_counterexample:
  "isAvailable (example_store (map example_item (rev [10 ..< 20])) 10) \<and>
   length (loadHistory (example_store (map example_item (rev [10 ..< 20])) 10)) = 10 \<and>
   quota_limit 10 \<lparr>reportData = Absent,
      reportHistory = Json (\<lparr>timestamp = toString 20, data = example_data\<rparr> # map example_item (rev [15 ..< 20])),
      theme = None\<rparr> = None \<and>
   \<not> fst (saveToHistory (example_store (map example_item (rev [10 ..< 20])) 10) (toString 20) example_data) \<and>
   loadHistory (snd (saveToHistory (example_store (map example_item (rev [10 ..< 20])) 10) (toString 20) example_data))
     = map example_item (rev [15 ..< 20])"
  by (simp add: saveToHistory_def guard_example loadHistory_def example_store_def quota_limit_def MAX_HISTORY_ITEMS_def
       handleQuotaExceeded_def setItem_def Let_def)


section \<open>Field validation\<close>

text \<open>Whitespace around a value does not change what \<open>trim\<close> returns.\<close>

lemma trim_Nil: "trim [] = []"
  by (simp add: trim_def)

lemma trim_all_ws:
  assumes "list_all isWhiteSpace v"
  shows "trim v = []"
proof -
  from assms have h: "dropWhile isWhiteSpace v = []"
    by (simp add: list_all_iff)
  show ?thesis
    unfolding trim_def h by simp
qed

lemma dropWhile_ws_prefix:
  "list_all isWhiteSpace a \<Longrightarrow> dropWhile isWhiteSpace (a @ v) = dropWhile isWhiteSpace v"
  by (simp add: list_all_iff)

lemma trim_prefix: "list_all isWhiteSpace a \<Longrightarrow> trim (a @ v) = trim v"
  by (simp add: trim_def dropWhile_ws_prefix)

lemma trim_suffix:
  assumes "list_all isWhiteSpace b"
  shows "trim (v @ b) = trim v"
proof (cases "list_all isWhiteSpace v")
  case True
  with assms have "list_all isWhiteSpace (v @ b)" by simp
  with True show ?thesis by (simp only: trim_all_ws)
next
  case False
  then have "dropWhile isWhiteSpace (v @ b) = dropWhile isWhiteSpace v @ b"
    by (auto simp: list_all_iff)
  moreover from assms have "list_all isWhiteSpace (rev b)"
    by (simp add: list_all_iff)
  ultimately show ?thesis
    by (simp add: trim_def dropWhile_ws_prefix)
qed

lemma trim_surrounded:
  "list_all isWhiteSpace a \<Longrightarrow> list_all isWhiteSpace b \<Longrightarrow> trim (a @ v @ b) = trim v"
  by (simp add: trim_prefix trim_suffix)

lemma validateWorkBom_trim: "validateWorkBom v \<longleftrightarrow> trim v = [] \<or> pattern_test (trim v)"
  by (auto simp: validateWorkBom_def trim_Nil)

lemma validateProjectName_trim:
  "validateProjectName v \<longleftrightarrow> trim v = [] \<or> (3 \<le> length (trim v) \<and> length (trim v) \<le> 200)"
  by (auto simp: validateProjectName_def trim_Nil Let_def)

text \<open>
  C10: Work BOM and project name validation trim the value before checking it. A value
  made of whitespace only is valid; whitespace before and after a value does not change
  the verdict on it; and the 3 to 200 bounds of the project name are bounds on the length
  of the trimmed value.
\<close>

theorem validation_trims_input:
  "(list_all isWhiteSpace v \<longrightarrow> validateWorkBom v \<and> validateProjectName v) \<and>
   (list_all isWhiteSpace a \<and> list_all isWhiteSpace b \<longrightarrow>
      validateWorkBom (a @ v @ b) = validateWorkBom v \<and>
      validateProjectName (a @ v @ b) = validateProjectName v) \<and>
   (validateProjectName v \<longleftrightarrow>
      trim v = [] \<or> (3 \<le> length (trim v) \<and> length (trim v) \<le> 200))"
  using validateProjectName_trim [of v]
  by (simp add: validateWorkBom_trim validateProjectName_trim trim_surrounded trim_all_ws)

theorem validation_trims_input_witness:
  "list_all isWhiteSpace (ascii ''   '') \<and>
   validateWorkBom (ascii ''   '') \<and> validateProjectName (ascii ''   '') \<and>
   (list_all isWhiteSpace (ascii '' '') \<and> list_all isWhiteSpace [0x09]) \<and>
   validateWorkBom (ascii '' '' @ ascii ''WB-S2407-0105-A'' @ [0x09]) \<and>
   validateWorkBom (ascii ''WB-S2407-0105-A'') \<and>
   \<not> validateProjectName (ascii '' '' @ ascii ''ab'' @ [0x09]) \<and>
   validateProjectName (ascii '' '' @ ascii ''abc'' @ [0x09])"
  using validation_trims_input [of "ascii ''   ''" "ascii '' ''" "[0x09]"]
    validation_trims_input [of "ascii ''WB-S2407-0105-A''" "ascii '' ''" "[0x09]"]
    validation_trims_input [of "ascii ''ab''" "ascii '' ''" "[0x09]"]
    validation_trims_input [of "ascii ''abc''" "ascii '' ''" "[0x09]"]
  by (simp add: validateWorkBom_def validateProjectName_def trim_def isWhiteSpace_def ascii_def
        pattern_test_def pattern_def canonicalize_def)

text \<open>The regular expression test agrees with the format the specification words.\<close>

lemma atom_W: "atom_test (Ch 0x57) c \<longleftrightarrow> c = 0x57 \<or> c = 0x77"
  by (auto simp: canonicalize_def)

lemma atom_B: "atom_test (Ch 0x42) c \<longleftrightarrow> c = 0x42 \<or> c = 0x62"
  by (auto simp: canonicalize_def)

lemma atom_dash: "atom_test (Ch 0x2D) c \<longleftrightarrow> c = 0x2D"
  by (auto simp: canonicalize_def)

lemma atom_AZ: "atom_test AZ c \<longleftrightarrow> is_letter c"
  unfolding atom_test.simps canonicalize_def is_letter_def by unat_arith

lemma atom_Digit: "atom_test Digit c \<longleftrightarrow> is_digit c"
  by (simp add: is_digit_def)

lemma length_15:
  "length s = 15 \<longleftrightarrow>
   (\<exists>c0 c1 c2 c3 c4 c5 c6 c7 c8 c9 c10 c11 c12 c13 c14.
      s = [c0, c1, c2, c3, c4, c5, c6, c7, c8, c9, c10, c11, c12, c13, c14])"
  by (auto simp: eval_nat_numeral length_Suc_conv)

lemma pattern_test_length: "pattern_test s \<Longrightarrow> length s = 15"
  by (auto simp: pattern_test_def pattern_def dest: list_all2_lengthD)

lemma pattern_test_explicit:
  "pattern_test [c0, c1, c2, c3, c4, c5, c6, c7, c8, c9, c10, c11, c12, c13, c14] \<longleftrightarrow>
   spec_workBom_format [c0, c1, c2, c3, c4, c5, c6, c7, c8, c9, c10, c11, c12, c13, c14]"
  unfolding pattern_test_def pattern_def spec_workBom_format_def
  by (simp add: atom_W atom_B atom_dash atom_AZ atom_Digit del: atom_test.simps)

lemma pattern_test_iff: "pattern_test s \<longleftrightarrow> spec_workBom_format s"
proof (cases "length s = 15")
  case True
  then obtain c0 c1 c2 c3 c4 c5 c6 c7 c8 c9 c10 c11 c12 c13 c14
    where "s = [c0, c1, c2, c3, c4, c5, c6, c7, c8, c9, c10, c11, c12, c13, c14]"
    unfolding length_15 by blast
  then show ?thesis
    by (simp only: pattern_test_explicit)
next
  case False
  then show ?thesis
    using pattern_test_length [of s] by (auto simp: spec_workBom_format_def)
qed

text \<open>
  C6, as the source has it: Work BOM validation accepts exactly the values that, once
  leading and trailing whitespace is trimmed, are empty or have the format \<open>WB-\<close>, one
  letter, four digits, \<open>-\<close>, four digits, \<open>-\<close>, one letter, in either case;
  \<open>WB-S2407-0105-A\<close> passes, \<open>WB-24-0105-A\<close> fails and the empty string passes.
\<close>

theorem validateWorkBom_accepts_trimmed_format:
  "(validateWorkBom v \<longleftrightarrow> trim v = [] \<or> spec_workBom_format (trim v)) \<and>
   validateWorkBom (ascii ''WB-S2407-0105-A'') \<and>
   \<not> validateWorkBom (ascii ''WB-24-0105-A'') \<and>
   validateWorkBom []"
proof -
  have "validateWorkBom (ascii ''WB-S2407-0105-A'')"
    by (simp add: validateWorkBom_def trim_def isWhiteSpace_def ascii_def pattern_test_def
          pattern_def canonicalize_def)
  moreover have "\<not> validateWorkBom (ascii ''WB-24-0105-A'')"
    by (simp add: validateWorkBom_def trim_def isWhiteSpace_def ascii_def pattern_test_def
          pattern_def canonicalize_def)
  moreover have "validateWorkBom []"
    by (simp add: validateWorkBom_def)
  ultimately show ?thesis
    by (simp add: validateWorkBom_trim pattern_test_iff)
qed

theorem validateWorkBom_accepts_trimmed_format_witness:
  "validateWorkBom (ascii '' wb-s2407-0105-a '') \<and>
   trim (ascii '' wb-s2407-0105-a '') = ascii ''wb-s2407-0105-a'' \<and>
   spec_workBom_format (trim (ascii '' wb-s2407-0105-a ''))"
  using validateWorkBom_accepts_trimmed_format [of "ascii '' wb-s2407-0105-a ''"]
  by (simp add: validateWorkBom_def trim_def isWhiteSpace_def ascii_def pattern_test_def
        pattern_def canonicalize_def)

text \<open>
  C6, as the claim states it (exactly the empty string and the strings of the format):
  the value \<open>wb-s2407-0105-a\<close> between two spaces, and the value of two spaces, are
  accepted, and neither is empty or of the format.
\<close>

theorem validateWorkBom_exactly_counterexample:
  "validateWorkBom (ascii '' wb-s2407-0105-a '') \<and>
   ascii '' wb-s2407-0105-a '' \<noteq> [] \<and>
   \<not> spec_workBom_format (ascii '' wb-s2407-0105-a '') \<and>
   \<not> pattern_test (ascii '' wb-s2407-0105-a '') \<and>
   validateWorkBom (ascii ''  '') \<and> ascii ''  '' \<noteq> [] \<and> \<not> spec_workBom_format (ascii ''  '')"
  by (simp add: validateWorkBom_def trim_def isWhiteSpace_def ascii_def pattern_test_def
        pattern_def canonicalize_def spec_workBom_format_def)


section \<open>The report text\<close>

text \<open>
  What the loop over the tasks appends: for each task with a non-empty detail, in order,
  its lines, numbered by the position of the task in the whole list.
\<close>

lemma task_callback_step:
  "task_callback (parts, h) (t, i) =
     (parts @ (if detail t = [] then []
               else [toString (i + 1) @ ascii ''. '' @ detail t, lbl_status @ status t] @
                    (if remark t \<noteq> [] \<and> remark t \<noteq> ascii ''-''
                     then [lbl_remark @ remark t] else [])),
      h \<or> detail t \<noteq> [])"
  by (simp add: task_callback_def Let_def)

lemma foldl_indexed_append:
  assumes step: "\<And>parts h t i. f (parts, h) (t, i) = (parts @ g t i, h \<or> p t)"
  shows "foldl f (parts, h) (zip ts [k ..< k + length ts]) =
     (parts @ concat (map (\<lambda>i. g (ts ! i) (k + i)) [0 ..< length ts]),
      h \<or> (\<exists>t \<in> set ts. p t))"
proof (induction ts arbitrary: parts h k)
  case Nil
  then show ?case by simp
next
  case (Cons t ts)
  have upt: "[k ..< k + length (t # ts)] = k # [Suc k ..< Suc k + length ts]"
    by (subst upt_rec) simp
  have idx: "[0 ..< length (t # ts)] = 0 # map Suc [0 ..< length ts]"
    by (simp only: length_Cons upt_conv_Cons [OF zero_less_Suc] map_Suc_upt)
  have "foldl f (parts, h) (zip (t # ts) [k ..< k + length (t # ts)]) =
        foldl f (parts @ g t k, h \<or> p t) (zip ts [Suc k ..< Suc k + length ts])"
    unfolding upt by (simp add: step)
  also have "\<dots> = ((parts @ g t k) @ concat (map (\<lambda>i. g (ts ! i) (Suc k + i)) [0 ..< length ts]),
                  (h \<or> p t) \<or> (\<exists>t \<in> set ts. p t))"
    by (rule Cons.IH)
  also have "\<dots> = (parts @ concat (map (\<lambda>i. g ((t # ts) ! i) (k + i)) [0 ..< length (t # ts)]),
                  h \<or> (\<exists>t \<in> set (t # ts). p t))"
    unfolding idx by (simp add: comp_def)
  finally show ?case .
qed

lemma forEach_task_lines:
  "forEach_task (parts, h) ts =
     (parts @ concat (map (\<lambda>i.
         if detail (ts ! i) = [] then []
         else [toString (i + 1) @ ascii ''. '' @ detail (ts ! i), lbl_status @ status (ts ! i)] @
              (if remark (ts ! i) \<noteq> [] \<and> remark (ts ! i) \<noteq> ascii ''-''
               then [lbl_remark @ remark (ts ! i)] else [])) [0 ..< length ts]),
      h \<or> (\<exists>t \<in> set ts. detail t \<noteq> []))"
  unfolding forEach_task_def
  using foldl_indexed_append [of task_callback _ "\<lambda>t. detail t \<noteq> []" parts h ts 0, OF task_callback_step]
  by (simp cong: if_cong)

lemma no_lines:
  assumes "\<not> (\<exists>t \<in> set ts. detail t \<noteq> [])"
  shows "concat (map (\<lambda>i. if detail (ts ! i) = [] then [] else g i) [0 ..< length ts]) = []"
proof -
  have "\<And>i. i < length ts \<Longrightarrow> detail (ts ! i) = []"
    using assms nth_mem by blast
  then show ?thesis
    by simp
qed

text \<open>
  The part of the report between the task header and the problems: the lines of the loop
  if some task has a non-empty detail, the placeholder line otherwise.
\<close>

lemma report_body:
  "(if length ts > 0 then
      (case forEach_task (p, False) ts of
         (parts, hasTasks) \<Rightarrow> if \<not> hasTasks then parts @ [no_items] else parts)
    else p @ [no_items]) =
   p @ (if \<exists>t \<in> set ts. detail t \<noteq> []
        then concat (map (\<lambda>i.
                if detail (ts ! i) = [] then []
                else [toString (i + 1) @ ascii ''. '' @ detail (ts ! i),
                      lbl_status @ status (ts ! i)] @
                     (if remark (ts ! i) \<noteq> [] \<and> remark (ts ! i) \<noteq> ascii ''-''
                      then [lbl_remark @ remark (ts ! i)] else []))
              [0 ..< length ts])
        else [no_items])"
proof (cases "\<exists>t \<in> set ts. detail t \<noteq> []")
  case True
  then have "ts \<noteq> []" by auto
  with True show ?thesis
    unfolding forEach_task_lines by simp
next
  case False
  show ?thesis
    unfolding forEach_task_lines using False no_lines [OF False] by simp
qed

lemma toString_digit: "n < 10 \<Longrightarrow> toString n = [0x30 + of_nat n]"
  by (subst toString.simps) simp

text \<open>
  C1, as the source has it: for every snapshot and date, the report is the trimmed,
  newline-joined sequence of the date line, the BOM and project lines with their
  separator, the task header, the task lines and the problems part. A task whose detail
  is empty contributes no line. Every other task contributes, in list order, its detail
  line, its status line and (unless the remark is empty or \<open>-\<close>) its remark line, and
  the number on the detail line is the position of the task in the whole task list
  (index + 1), so the numbers increase but skip the positions of the tasks left out. If no
  task has a non-empty detail the placeholder line stands in place of the task lines.
\<close>

theorem report_numbers_tasks_by_position:
  "generateReport dateStr s =
     trim (join [0x0A]
       ([hdr_date @ dateStr] @
        (if st_workBom (rm_state s) \<noteq> [] then [hdr_workBom @ st_workBom (rm_state s)] else []) @
        (if st_projectName (rm_state s) \<noteq> []
         then [hdr_project @ st_projectName (rm_state s)] else []) @
        (if st_workBom (rm_state s) \<noteq> [] \<or> st_projectName (rm_state s) \<noteq> []
         then [separator] else []) @
        [hdr_tasks] @
        (if \<exists>t \<in> set (tm_tasks s). detail t \<noteq> []
         then concat (map (\<lambda>i.
                if detail (tm_tasks s ! i) = [] then []
                else [toString (i + 1) @ ascii ''. '' @ detail (tm_tasks s ! i),
                      lbl_status @ status (tm_tasks s ! i)] @
                     (if remark (tm_tasks s ! i) \<noteq> [] \<and> remark (tm_tasks s ! i) \<noteq> ascii ''-''
                      then [lbl_remark @ remark (tm_tasks s ! i)] else []))
              [0 ..< length (tm_tasks s)])
         else [no_items]) @
        (if st_problems (rm_state s) \<noteq> []
         then [separator, hdr_problems, st_problems (rm_state s)] else [])))"
proof -
  define body where "body =
        (if \<exists>t \<in> set (tm_tasks s). detail t \<noteq> []
         then concat (map (\<lambda>i.
                if detail (tm_tasks s ! i) = [] then []
                else [toString (i + 1) @ ascii ''. '' @ detail (tm_tasks s ! i),
                      lbl_status @ status (tm_tasks s ! i)] @
                     (if remark (tm_tasks s ! i) \<noteq> [] \<and> remark (tm_tasks s ! i) \<noteq> ascii ''-''
                      then [lbl_remark @ remark (tm_tasks s ! i)] else []))
              [0 ..< length (tm_tasks s)])
         else [no_items])"
  show ?thesis
    unfolding generateReport_def getTasks_def Let_def report_body body_def [symmetric]
    by (cases "st_workBom (rm_state s) = []"; cases "st_projectName (rm_state s) = []";
        cases "st_problems (rm_state s) = []"; simp)
qed

theorem report_numbers_tasks_by_position_witness:
  "generateReport (ascii ''1/1/2569'') example_report_session =
     join [0x0A]
       [hdr_date @ ascii ''1/1/2569'', hdr_workBom @ ascii ''WB-S2407-0105-A'', separator,
        hdr_tasks,
        ascii ''2. a'', lbl_status @ ascii ''OK'',
        ascii ''4. b'', lbl_status @ ascii ''NG'', lbl_remark @ ascii ''urgent'',
        separator, hdr_problems, ascii ''late'']"
  using report_numbers_tasks_by_position [of "ascii ''1/1/2569''" example_report_session]
  by (simp add: example_report_session_def blank_task_def example_task_def toString_digit
        ascii_def trim_def isWhiteSpace_def hdr_date_def hdr_workBom_def separator_def hdr_tasks_def
        lbl_status_def lbl_remark_def hdr_problems_def)

text \<open>
  C1, as the claim states it (numbers count the included tasks only, from 1): with a
  blank first task and a second task \<open>a\<close>, the report numbers the only emitted task 2.
\<close>

theorem report_numbering_counterexample:
  "generateReport (ascii ''1/1/2569'') (example_session [blank_task, example_task ''a'']) =
     join [0x0A] [hdr_date @ ascii ''1/1/2569'', hdr_tasks, ascii ''2. a'', lbl_status @ ascii ''OK''] \<and>
   generateReport (ascii ''1/1/2569'') (example_session [blank_task, example_task ''a'']) \<noteq>
     join [0x0A] [hdr_date @ ascii ''1/1/2569'', hdr_tasks, ascii ''1. a'', lbl_status @ ascii ''OK'']"
  by (simp add: generateReport_def example_session_def blank_task_def example_task_def Let_def
       getTasks_def forEach_task_def task_callback_def toString_digit ascii_def trim_def isWhiteSpace_def
       hdr_date_def hdr_tasks_def lbl_status_def upt_conv_Cons del: upt_Suc)

end
